theory Spec2Isabelle
  imports Complex_Main "HOL-Library.Sublist"
begin

section \<open>JavaScript values\<close>

text \<open>
  A JavaScript \<open>number\<close> is modelled as an exact rational: every finite double is one, and
  the arithmetic of the functions below is carried out without rounding error. NaN and the
  infinities are not represented.
\<close>

type_synonym number = rat

datatype jsval =
    Undefined
  | Num number
  | Str string
  | Bool bool
  | Obj "(string \<times> jsval) list"




text \<open>What \<open>if (v)\<close> and \<open>v ? a : b\<close> test.\<close>

fun truthy :: "jsval \<Rightarrow> bool" where
  "truthy Undefined = False"
| "truthy (Num n) = (n \<noteq> 0)"
| "truthy (Str s) = (s \<noteq> [])"
| "truthy (Bool b) = b"
| "truthy (Obj kvs) = True"

text \<open>Reading a property of an object: a missing key reads \<open>undefined\<close>.\<close>

definition getProp :: "(string \<rightharpoonup> jsval) \<Rightarrow> string \<Rightarrow> jsval" where
  "getProp ob k = (case ob k of None \<Rightarrow> Undefined | Some v \<Rightarrow> v)"

section \<open>Types of the Zigbee module (zigbee.types.ts)\<close>

datatype ZigbeeDeviceType = LIGHT | SWITCH | PLUG | SENSOR | UNKNOWN

datatype ZigbeeDevicePowerState = ON | OFF | TOGGLE

fun powerStateString :: "ZigbeeDevicePowerState \<Rightarrow> string" where
  "powerStateString ON = ''ON''"
| "powerStateString OFF = ''OFF''"
| "powerStateString TOGGLE = ''TOGGLE''"

text \<open>
  \<open>ZigbeeDeviceState\<close>: an object whose keys are attribute names. A key can be present
  with the value \<open>undefined\<close>.
\<close>

type_synonym ZigbeeDeviceState = "string \<rightharpoonup> jsval"

record ZigbeeDevice =
  zd_ieeeAddr :: string
  zd_networkAddress :: nat
  zd_friendlyName :: "string option"
  zd_manufacturerName :: "string option"
  zd_modelId :: "string option"
  zd_type :: ZigbeeDeviceType
  zd_powerSource :: "string option"
  zd_interviewCompleted :: bool
  zd_lastSeen :: "nat option"
  zd_state :: ZigbeeDeviceState

record ColorSpec =
  cs_hex :: "string option"
  cs_rgb :: "(number \<times> number \<times> number) option"
  cs_hue :: "number option"
  cs_saturation :: "number option"

record LightControlOptions =
  lo_state :: "ZigbeeDevicePowerState option"
  lo_brightness :: "number option"
  lo_color_temp :: "number option"
  lo_transition :: "number option"
  lo_color :: "ColorSpec option"

text \<open>The events of \<open>ZigbeeEvent\<close> that the modelled functions emit, with their payloads.\<close>

datatype ZigbeeEvent =
    STATE_CHANGE ZigbeeDevice ZigbeeDeviceState
  | PERMIT_JOIN_CHANGED bool "number option"

section \<open>The collaborators: zigbee-herdsman and zigbee-herdsman-converters\<close>

datatype call_outcome = Resolves | Rejects

datatype read_outcome = ReadRejects | ReadResolves "string \<rightharpoonup> jsval"

record Endpoint =
  ep_ID :: nat
  ep_inputClusters :: "nat list"
  ep_outputClusters :: "nat list"
  ep_read :: "string \<Rightarrow> string list \<Rightarrow> read_outcome"
  ep_command :: "string \<Rightarrow> string \<Rightarrow> call_outcome"

record Device =
  hd_ieeeAddr :: string
  hd_type :: string
  hd_modelID :: "string option"
  hd_manufacturerName :: "string option"
  hd_powerSource :: "string option"
  hd_interviewCompleted :: bool
  hd_lastSeen :: "nat option"
  hd_endpoints :: "Endpoint list"

record Controller =
  ct_devices :: "Device list"
  ct_stop :: call_outcome
  ct_permitJoin :: "number \<Rightarrow> call_outcome"

definition getDeviceByIeeeAddr :: "Controller \<Rightarrow> string \<Rightarrow> Device option" where
  "getDeviceByIeeeAddr ctrl ieeeAddr = find (\<lambda>d. hd_ieeeAddr d = ieeeAddr) (ct_devices ctrl)"

text \<open>\<open>device.getEndpoint(id)\<close>.\<close>

definition getEndpoint :: "Device \<Rightarrow> nat \<Rightarrow> Endpoint option" where
  "getEndpoint dev i = find (\<lambda>e. ep_ID e = i) (hd_endpoints dev)"

text \<open>
  The value handed to a converter: the power state, a number, or one of the three colour
  objects. \<open>PRgb r g b\<close> stands for the object \<open>{ rgb: `${r},${g},${b}` }\<close>.
\<close>

datatype payload =
    PState ZigbeeDevicePowerState
  | PNumber number
  | PHex string
  | PRgb number number number
  | PHueSat number number

text \<open>
  One invocation of \<open>converter.convertSet(endpoint, key, value, meta)\<close>. The message of
  \<open>meta\<close> is \<open>{ [key]: value, ...options }\<close>, so it is given by the key, the value and
  the options.
\<close>

record TzCall =
  tc_ieeeAddr :: string
  tc_endpoint :: nat
  tc_key :: string
  tc_value :: payload
  tc_options :: LightControlOptions

text \<open>
  What \<open>convertSet\<close> does: it throws, or returns a result whose \<open>state\<close> is absent
  (\<open>Returns None\<close>) or an object.
\<close>

datatype convert_outcome = Throws | Returns "ZigbeeDeviceState option"

text \<open>
  A \<open>toZigbee\<close> converter. Its outcome may depend on the calls made before this one
  (the device has a state of its own), given as the first argument.
\<close>

record TzConverter =
  tz_key :: "string list option"
  tz_convertSet :: "(TzCall list \<Rightarrow> TzCall \<Rightarrow> convert_outcome) option"

record Definition =
  df_toZigbee :: "TzConverter list option"

text \<open>\<open>zhc.findByDevice\<close>, the catalog lookup.\<close>

type_synonym zhc = "Device \<Rightarrow> Definition option"

section \<open>ZigbeeService (zigbee.service.ts)\<close>

text \<open>
  The fields of the service, followed by two logs of what it did: the events given to the
  event emitter and the converter invocations made, both in order.
\<close>

record ZigbeeService =
  controller :: "Controller option"
  devices :: "string \<rightharpoonup> ZigbeeDevice"
  permitJoinEnabled :: bool
  isStarted :: bool
  emitted :: "ZigbeeEvent list"
  issued :: "TzCall list"

text \<open>
  The errors of the two services, one constructor for each \<open>throw\<close>: the four
  \<open>Error\<close>s of \<open>sendCommand\<close> and \<open>readState\<close> (device, definition, endpoint or
  converter not found), an exception of the converter, the \<open>Error\<close> of \<open>permitJoin\<close>
  on a service that is not started, and a rejected call of the controller. Logging is not
  modelled.
\<close>

datatype service_error =
    DeviceNotFound string
  | DefinitionNotFound string
  | EndpointNotFound string
  | ConverterNotFound string
  | ConverterFailed
  | NotStarted
  | ControllerFailed

definition getDevice :: "ZigbeeService \<Rightarrow> string \<Rightarrow> ZigbeeDevice option" where
  "getDevice w ieeeAddr = devices w ieeeAddr"


definition getHerdsmanDevice :: "ZigbeeService \<Rightarrow> string \<Rightarrow> Device option" where
  "getHerdsmanDevice w ieeeAddr =
     (case controller w of
        None \<Rightarrow> None
      | Some ctrl \<Rightarrow> getDeviceByIeeeAddr ctrl ieeeAddr)"

text \<open>
  \<open>updateDeviceState\<close>: \<open>now\<close> is the value of \<open>new Date()\<close>. The event carries the
  device object and its state as they are when it is emitted.
\<close>

definition updateDeviceState ::
  "ZigbeeService \<Rightarrow> string \<Rightarrow> ZigbeeDeviceState \<Rightarrow> nat \<Rightarrow> ZigbeeService" where
  "updateDeviceState w ieeeAddr st now =
     (case devices w ieeeAddr of
        None \<Rightarrow> w
      | Some device \<Rightarrow>
          let device' = device\<lparr>zd_state := zd_state device ++ st, zd_lastSeen := Some now\<rparr>
          in w\<lparr>devices := (devices w)(ieeeAddr \<mapsto> device'),
                emitted := emitted w @ [STATE_CHANGE device' (zd_state device')]\<rparr>)"



section \<open>ZigbeeDeviceService (zigbee-device.service.ts)\<close>

text \<open>\<open>herdsmanDevice.getEndpoint(1) || herdsmanDevice.endpoints[0]\<close>.\<close>

definition pickEndpoint :: "Device \<Rightarrow> Endpoint option" where
  "pickEndpoint dev =
     (case getEndpoint dev 1 of
        Some e \<Rightarrow> Some e
      | None \<Rightarrow> (case hd_endpoints dev of [] \<Rightarrow> None | e # _ \<Rightarrow> Some e))"

text \<open>\<open>definition.toZigbee?.find((c) => c.key?.includes(command))\<close>.\<close>

definition findConverter :: "Definition \<Rightarrow> string \<Rightarrow> TzConverter option" where
  "findConverter defn command =
     (case df_toZigbee defn of
        None \<Rightarrow> None
      | Some cs \<Rightarrow>
          find (\<lambda>c. case tz_key c of None \<Rightarrow> False | Some ks \<Rightarrow> command \<in> set ks) cs)"

definition emptyOptions :: LightControlOptions where
  "emptyOptions =
     \<lparr>lo_state = None, lo_brightness = None, lo_color_temp = None,
      lo_transition = None, lo_color = None\<rparr>"

text \<open>
  The local \<open>options\<close> object of the setters: empty, with \<open>transition\<close> set when the
  argument is not \<open>undefined\<close>.
\<close>

definition transitionOptions :: "number option \<Rightarrow> LightControlOptions" where
  "transitionOptions transition = emptyOptions\<lparr>lo_transition := transition\<rparr>"

definition sendCommand ::
  "zhc \<Rightarrow> ZigbeeService \<Rightarrow> string \<Rightarrow> string \<Rightarrow> payload \<Rightarrow> LightControlOptions \<Rightarrow> nat
     \<Rightarrow> (service_error + unit) \<times> ZigbeeService" where
  "sendCommand findByDevice w ieeeAddr command v options now =
     (case getHerdsmanDevice w ieeeAddr of
        None \<Rightarrow> (Inl (DeviceNotFound ieeeAddr), w)
      | Some herdsmanDevice \<Rightarrow>
     (case findByDevice herdsmanDevice of
        None \<Rightarrow> (Inl (DefinitionNotFound ieeeAddr), w)
      | Some defn \<Rightarrow>
     (case pickEndpoint herdsmanDevice of
        None \<Rightarrow> (Inl (EndpointNotFound ieeeAddr), w)
      | Some endpoint \<Rightarrow>
     (case findConverter defn command of
        None \<Rightarrow> (Inl (ConverterNotFound command), w)
      | Some converter \<Rightarrow>
     (case tz_convertSet converter of
        None \<Rightarrow> (Inr (), w)
      | Some convertSet \<Rightarrow>
          let call = \<lparr>tc_ieeeAddr = ieeeAddr, tc_endpoint = ep_ID endpoint, tc_key = command,
                      tc_value = v, tc_options = options\<rparr>;
              w1 = w\<lparr>issued := issued w @ [call]\<rparr>
          in (case convertSet (issued w) call of
                Throws \<Rightarrow> (Inl ConverterFailed, w1)
              | Returns None \<Rightarrow> (Inr (), w1)
              | Returns (Some st) \<Rightarrow> (Inr (), updateDeviceState w1 ieeeAddr st now)))))))"



text \<open>
  \<open>setColor\<close>. \<open>color.hex\<close> is tested for truth, so an empty string counts as no hex;
  \<open>color.rgb\<close> is an object when present; hue and saturation are compared with
  \<open>undefined\<close>.
\<close>

definition setColor ::
  "zhc \<Rightarrow> ZigbeeService \<Rightarrow> string \<Rightarrow> ColorSpec option \<Rightarrow> number option \<Rightarrow> nat
     \<Rightarrow> (service_error + unit) \<times> ZigbeeService" where
  "setColor findByDevice w ieeeAddr color transition now =
     (case color of
        None \<Rightarrow> (Inr (), w)
      | Some c \<Rightarrow>
          let options = transitionOptions transition
          in (case (case cs_hex c of None \<Rightarrow> None | Some h \<Rightarrow> if h = [] then None else Some h) of
                Some h \<Rightarrow> sendCommand findByDevice w ieeeAddr ''color'' (PHex h) options now
              | None \<Rightarrow>
             (case cs_rgb c of
                Some (r, g, b) \<Rightarrow>
                  sendCommand findByDevice w ieeeAddr ''color'' (PRgb r g b) options now
              | None \<Rightarrow>
             (case cs_hue c of
                None \<Rightarrow> (Inr (), w)
              | Some hu \<Rightarrow>
             (case cs_saturation c of
                None \<Rightarrow> (Inr (), w)
              | Some sa \<Rightarrow>
                  sendCommand findByDevice w ieeeAddr ''color'' (PHueSat hu sa) options now)))))"



text \<open>
  \<open>readState\<close>: three reads on the chosen endpoint, each in a \<open>try\<close> of its own whose
  \<open>catch\<close> is empty, then the write to the cache.
\<close>

definition readState ::
  "ZigbeeService \<Rightarrow> string \<Rightarrow> nat \<Rightarrow> (service_error + ZigbeeDeviceState) \<times> ZigbeeService" where
  "readState w ieeeAddr now =
     (case getHerdsmanDevice w ieeeAddr of
        None \<Rightarrow> (Inl (DeviceNotFound ieeeAddr), w)
      | Some herdsmanDevice \<Rightarrow>
     (case pickEndpoint herdsmanDevice of
        None \<Rightarrow> (Inl (EndpointNotFound ieeeAddr), w)
      | Some endpoint \<Rightarrow>
          let state0 = Map.empty;
              state1 =
                (case ep_read endpoint ''genOnOff'' [''onOff''] of
                   ReadRejects \<Rightarrow> state0
                 | ReadResolves onOffResult \<Rightarrow>
                     state0(''state'' \<mapsto>
                       Str (powerStateString
                              (if truthy (getProp onOffResult ''onOff'') then ON else OFF))));
              state2 =
                (case ep_read endpoint ''genLevelCtrl'' [''currentLevel''] of
                   ReadRejects \<Rightarrow> state1
                 | ReadResolves levelResult \<Rightarrow>
                     state1(''brightness'' \<mapsto> getProp levelResult ''currentLevel''));
              state3 =
                (case ep_read endpoint ''lightingColorCtrl'' [''colorTemperature''] of
                   ReadRejects \<Rightarrow> state2
                 | ReadResolves colorTempResult \<Rightarrow>
                     state2(''color_temp'' \<mapsto> getProp colorTempResult ''colorTemperature''))
          in (Inr state3, updateDeviceState w ieeeAddr state3 now)))"

section \<open>The command-line half: coordinator.ts, deviceRegistry.ts, actions.ts\<close>

record ZigbeeCoordinator =
  co_controller :: "Controller option"
  co_started :: bool

text \<open>
  The error classes of errors.ts, and the rejection of \<open>endpoint.command\<close>, which
  \<open>sendOnOff\<close> lets through.
\<close>

datatype cli_error =
    CoordinatorError
  | DeviceNotFoundError string
  | UnsupportedActionError string string
  | CommandRejected

text \<open>
  \<open>ZigbeeCoordinator.stop\<close>. The \<open>catch\<close> block logs the error of the controller's
  \<open>stop\<close> and goes on; the \<open>finally\<close> block runs in both cases.
\<close>

definition ZigbeeCoordinator_stop ::
  "ZigbeeCoordinator \<Rightarrow> (cli_error + unit) \<times> ZigbeeCoordinator" where
  "ZigbeeCoordinator_stop co =
     (case co_controller co of
        None \<Rightarrow> (Inr (), co)
      | Some ctrl \<Rightarrow>
          if \<not> co_started co then (Inr (), co)
          else
            let attempt = (case ct_stop ctrl of Resolves \<Rightarrow> Inr () | Rejects \<Rightarrow> Inr ())
            in (attempt, co\<lparr>co_started := False, co_controller := None\<rparr>))"

definition isRunning :: "ZigbeeCoordinator \<Rightarrow> bool" where
  "isRunning co = co_started co"

definition assertRunning :: "ZigbeeCoordinator \<Rightarrow> cli_error + unit" where
  "assertRunning co =
     (if \<not> co_started co \<or> co_controller co = None then Inl CoordinatorError else Inr ())"

definition getController :: "ZigbeeCoordinator \<Rightarrow> cli_error + Controller" where
  "getController co =
     (case assertRunning co of
        Inl e \<Rightarrow> Inl e
      | Inr u \<Rightarrow> (case co_controller co of None \<Rightarrow> Inl CoordinatorError | Some ctrl \<Rightarrow> Inr ctrl))"

definition CLUSTER_ON_OFF :: nat where
  "CLUSTER_ON_OFF = 6"

text \<open>\<open>DeviceRegistry.getHerdsmanDevice\<close>.\<close>

definition DeviceRegistry_getHerdsmanDevice ::
  "ZigbeeCoordinator \<Rightarrow> string \<Rightarrow> cli_error + Device" where
  "DeviceRegistry_getHerdsmanDevice co ieeeAddr =
     (case getController co of
        Inl e \<Rightarrow> Inl e
      | Inr ctrl \<Rightarrow>
          (case getDeviceByIeeeAddr ctrl ieeeAddr of
             None \<Rightarrow> Inl (DeviceNotFoundError ieeeAddr)
           | Some device \<Rightarrow> Inr device))"

definition getOnOffEndpoint :: "ZigbeeCoordinator \<Rightarrow> string \<Rightarrow> cli_error + Endpoint option" where
  "getOnOffEndpoint co ieeeAddr =
     (case DeviceRegistry_getHerdsmanDevice co ieeeAddr of
        Inl e \<Rightarrow> Inl e
      | Inr device \<Rightarrow>
          Inr (case find (\<lambda>e. CLUSTER_ON_OFF \<in> set (ep_inputClusters e)) (hd_endpoints device) of
                 Some ep \<Rightarrow> Some ep
               | None \<Rightarrow>
                   find (\<lambda>e. CLUSTER_ON_OFF \<in> set (ep_outputClusters e)) (hd_endpoints device)))"

datatype OnOffAction = Action_on | Action_off | Action_toggle

fun actionString :: "OnOffAction \<Rightarrow> string" where
  "actionString Action_on = ''on''"
| "actionString Action_off = ''off''"
| "actionString Action_toggle = ''toggle''"

text \<open>One \<open>endpoint.command(cluster, command, {})\<close> handed to the controller.\<close>

record ZclCommand =
  zc_ieeeAddr :: string
  zc_endpoint :: nat
  zc_cluster :: string
  zc_command :: string

text \<open>
  \<open>sendOnOff\<close>; the last argument is the list of commands handed to the controller so
  far, returned with the one this call adds.
\<close>

definition sendOnOff ::
  "ZigbeeCoordinator \<Rightarrow> string \<Rightarrow> OnOffAction \<Rightarrow> ZclCommand list
     \<Rightarrow> (cli_error + unit) \<times> ZclCommand list" where
  "sendOnOff co ieeeAddr action sent =
     (case getOnOffEndpoint co ieeeAddr of
        Inl e \<Rightarrow> (Inl e, sent)
      | Inr None \<Rightarrow> (Inl (UnsupportedActionError (actionString action) ieeeAddr), sent)
      | Inr (Some ep) \<Rightarrow>
          let sent' = sent @ [\<lparr>zc_ieeeAddr = ieeeAddr, zc_endpoint = ep_ID ep,
                                zc_cluster = ''genOnOff'', zc_command = actionString action\<rparr>]
          in (case ep_command ep ''genOnOff'' (actionString action) of
                Rejects \<Rightarrow> (Inl CommandRejected, sent')
              | Resolves \<Rightarrow> (Inr (), sent')))"

section \<open>Example configurations\<close>

text \<open>
  A colour bulb with one endpoint on which the three clusters answer, and a smart plug (the
  device \<open>0x00158d0001234567\<close>, whose interview has not completed) on which only the
  On/Off cluster answers.
\<close>

definition lampEndpoint :: Endpoint where
  "lampEndpoint =
     \<lparr>ep_ID = 1, ep_inputClusters = [0, 6, 8, 768], ep_outputClusters = [],
      ep_read = (\<lambda>cluster attrs.
        if cluster = ''genOnOff'' then ReadResolves [''onOff'' \<mapsto> Num 1]
        else if cluster = ''genLevelCtrl'' then ReadResolves [''currentLevel'' \<mapsto> Num 203]
        else if cluster = ''lightingColorCtrl''
          then ReadResolves [''colorTemperature'' \<mapsto> Num 250]
        else ReadRejects),
      ep_command = (\<lambda>cluster command. Resolves)\<rparr>"

definition lamp :: Device where
  "lamp =
     \<lparr>hd_ieeeAddr = ''0x01'', hd_type = ''Router'', hd_modelID = Some ''bulb'',
      hd_manufacturerName = None, hd_powerSource = None, hd_interviewCompleted = True,
      hd_lastSeen = None, hd_endpoints = [lampEndpoint]\<rparr>"

definition plugEndpoint :: Endpoint where
  "plugEndpoint =
     \<lparr>ep_ID = 1, ep_inputClusters = [0, 6], ep_outputClusters = [],
      ep_read = (\<lambda>cluster attrs.
        if cluster = ''genOnOff'' then ReadResolves [''onOff'' \<mapsto> Num 1] else ReadRejects),
      ep_command = (\<lambda>cluster command. Resolves)\<rparr>"

definition plug :: Device where
  "plug =
     \<lparr>hd_ieeeAddr = ''0x00158d0001234567'', hd_type = ''Router'', hd_modelID = Some ''plug'',
      hd_manufacturerName = None, hd_powerSource = None, hd_interviewCompleted = False,
      hd_lastSeen = None, hd_endpoints = [plugEndpoint]\<rparr>"

text \<open>
  The catalog: the \<open>state\<close> converter answers with the state it set; the bulb has a second
  converter for brightness, colour temperature and colour, the plug has none.
\<close>

definition stateConverter :: TzConverter where
  "stateConverter =
     \<lparr>tz_key = Some [''state''],
      tz_convertSet = Some (\<lambda>history call.
        case tc_value call of
          PState s \<Rightarrow> Returns (Some [''state'' \<mapsto> Str (powerStateString s)])
        | _ \<Rightarrow> Throws)\<rparr>"

definition lightConverter :: TzConverter where
  "lightConverter =
     \<lparr>tz_key = Some [''brightness'', ''color_temp'', ''color''],
      tz_convertSet = Some (\<lambda>history call.
        case tc_value call of
          PNumber n \<Rightarrow> Returns (Some [tc_key call \<mapsto> Num n])
        | _ \<Rightarrow> Returns None)\<rparr>"

definition catalog :: zhc where
  "catalog dev =
     (if hd_modelID dev = Some ''bulb''
        then Some \<lparr>df_toZigbee = Some [stateConverter, lightConverter]\<rparr>
      else if hd_modelID dev = Some ''plug''
        then Some \<lparr>df_toZigbee = Some [stateConverter]\<rparr>
      else None)"

definition lampEntry :: ZigbeeDevice where
  "lampEntry =
     \<lparr>zd_ieeeAddr = ''0x01'', zd_networkAddress = 4660,
      zd_friendlyName = Some ''0x01'', zd_manufacturerName = None,
      zd_modelId = Some ''bulb'', zd_type = LIGHT, zd_powerSource = None,
      zd_interviewCompleted = True, zd_lastSeen = None, zd_state = Map.empty\<rparr>"

definition plugEntry :: ZigbeeDevice where
  "plugEntry =
     \<lparr>zd_ieeeAddr = ''0x00158d0001234567'', zd_networkAddress = 22136,
      zd_friendlyName = Some ''0x00158d0001234567'', zd_manufacturerName = None,
      zd_modelId = Some ''plug'', zd_type = PLUG, zd_powerSource = None,
      zd_interviewCompleted = False, zd_lastSeen = None, zd_state = Map.empty\<rparr>"

definition homeController :: Controller where
  "homeController =
     \<lparr>ct_devices = [lamp, plug], ct_stop = Resolves, ct_permitJoin = (\<lambda>seconds. Resolves)\<rparr>"

text \<open>A started service that knows both devices.\<close>

definition homeService :: ZigbeeService where
  "homeService =
     \<lparr>controller = Some homeController,
      devices = [''0x01'' \<mapsto> lampEntry, ''0x00158d0001234567'' \<mapsto> plugEntry],
      permitJoinEnabled = False, isStarted = True, emitted = [], issued = []\<rparr>"

text \<open>A started command-line coordinator on the same controller.\<close>

definition homeCoordinator :: ZigbeeCoordinator where
  "homeCoordinator = \<lparr>co_controller = Some homeController, co_started = True\<rparr>"

section \<open>Vocabulary for the statements about sequences of sub-calls\<close>

text \<open>
  \<open>keeps w w'\<close>: nothing recorded in \<open>w\<close> is undone in \<open>w'\<close>. Every converter invocation
  and every event of \<open>w\<close> is still there, in place and in order, and every device cached in
  \<open>w\<close> is still cached with no attribute missing.
\<close>

definition keeps :: "ZigbeeService \<Rightarrow> ZigbeeService \<Rightarrow> bool" where
  "keeps w w' \<longleftrightarrow>
     prefix (issued w) (issued w') \<and> prefix (emitted w) (emitted w')
     \<and> (\<forall>x d. devices w x = Some d \<longrightarrow>
           (\<exists>d'. devices w' x = Some d' \<and> dom (zd_state d) \<subseteq> dom (zd_state d')))"

text \<open>
  \<open>issuesOnly a ks w w'\<close>: the converter invocations made between \<open>w\<close> and \<open>w'\<close> are all
  for the device \<open>a\<close>, and their keys, in the order of the invocations, are picked from
  the list \<open>ks\<close> without repetition or reordering.
\<close>

definition issuesOnly :: "string \<Rightarrow> string list \<Rightarrow> ZigbeeService \<Rightarrow> ZigbeeService \<Rightarrow> bool" where
  "issuesOnly a ks w w' \<longleftrightarrow>
     (\<exists>cs. issued w' = issued w @ cs \<and> subseq (map tc_key cs) ks
          \<and> (\<forall>c \<in> set cs. tc_ieeeAddr c = a))"

section \<open>Facts about the examples\<close>

lemma home_lamp:
  "getHerdsmanDevice homeService ''0x01'' = Some lamp"
  "catalog lamp = Some \<lparr>df_toZigbee = Some [stateConverter, lightConverter]\<rparr>"
  "pickEndpoint lamp = Some lampEndpoint"
  "ep_ID lampEndpoint = 1"
  by (simp_all add: getHerdsmanDevice_def homeService_def homeController_def
      getDeviceByIeeeAddr_def lamp_def catalog_def pickEndpoint_def getEndpoint_def
      lampEndpoint_def)

lemma lamp_converters:
  "findConverter \<lparr>df_toZigbee = Some [stateConverter, lightConverter]\<rparr> ''state''
     = Some stateConverter"
  "findConverter \<lparr>df_toZigbee = Some [stateConverter, lightConverter]\<rparr> ''brightness''
     = Some lightConverter"
  "findConverter \<lparr>df_toZigbee = Some [stateConverter, lightConverter]\<rparr> ''color_temp''
     = Some lightConverter"
  "findConverter \<lparr>df_toZigbee = Some [stateConverter, lightConverter]\<rparr> ''color''
     = Some lightConverter"
  by (simp_all add: findConverter_def stateConverter_def lightConverter_def)

lemma home_plug:
  "getHerdsmanDevice homeService ''0x00158d0001234567'' = Some plug"
  "catalog plug = Some \<lparr>df_toZigbee = Some [stateConverter]\<rparr>"
  "pickEndpoint plug = Some plugEndpoint"
  "ep_ID plugEndpoint = 1"
  by (simp_all add: getHerdsmanDevice_def homeService_def homeController_def
      getDeviceByIeeeAddr_def lamp_def plug_def catalog_def pickEndpoint_def getEndpoint_def
      plugEndpoint_def)

lemma plug_converters:
  "findConverter \<lparr>df_toZigbee = Some [stateConverter]\<rparr> ''state'' = Some stateConverter"
  "findConverter \<lparr>df_toZigbee = Some [stateConverter]\<rparr> ''brightness'' = None"
  by (simp_all add: findConverter_def stateConverter_def)

lemma lightConverter_convertSet:
  "tz_convertSet lightConverter =
     Some (\<lambda>history call.
        case tc_value call of
          PNumber n \<Rightarrow> Returns (Some [tc_key call \<mapsto> Num n])
        | _ \<Rightarrow> Returns None)"
  by (simp add: lightConverter_def)

lemma stateConverter_convertSet:
  "tz_convertSet stateConverter =
     Some (\<lambda>history call.
        case tc_value call of
          PState s \<Rightarrow> Returns (Some [''state'' \<mapsto> Str (powerStateString s)])
        | _ \<Rightarrow> Throws)"
  by (simp add: stateConverter_def)

lemma homeService_fields:
  "issued homeService = []"
  "emitted homeService = []"
  "devices homeService ''0x01'' = Some lampEntry"
  "devices homeService ''0x00158d0001234567'' = Some plugEntry"
  "devices homeService ''0xdead'' = None"
  "controller homeService = Some homeController"
  "isStarted homeService"
  "\<not> permitJoinEnabled homeService"
  by (simp_all add: homeService_def)

section \<open>The state cache\<close>

lemma overlay_twice: "(s ++ p) ++ p = s ++ (p :: 'a \<rightharpoonup> 'b)"
  by (rule ext) (simp add: map_add_def split: option.splits)

lemma updateDeviceState_known:
  "devices w a = Some d \<Longrightarrow>
   updateDeviceState w a p now =
     w\<lparr>devices := (devices w)(a \<mapsto> d\<lparr>zd_state := zd_state d ++ p, zd_lastSeen := Some now\<rparr>),
       emitted := emitted w @
         [STATE_CHANGE (d\<lparr>zd_state := zd_state d ++ p, zd_lastSeen := Some now\<rparr>)
            (zd_state d ++ p)]\<rparr>"
  by (simp add: updateDeviceState_def Let_def)

lemma issued_updateDeviceState [simp]: "issued (updateDeviceState w a st now) = issued w"
  by (simp add: updateDeviceState_def Let_def split: option.splits)

text \<open>
  C5. The merge of \<open>updateDeviceState\<close> is an overlay, attribute by attribute: the cached
  state of a known device becomes the prior state overlaid by the partial state; an attribute
  that the partial state does not name keeps its value, one that it names takes the new value;
  merging the same partial state a second time leaves the cached state as the first merge
  left it; and the one event emitted is a state change that carries the device as cached and
  the whole merged state.
\<close>

theorem updateDeviceState_merge:
  assumes "getDevice w a = Some d"
  shows "map_option zd_state (getDevice (updateDeviceState w a p now) a) = Some (zd_state d ++ p)
       \<and> (\<forall>k. k \<notin> dom p \<longrightarrow> (zd_state d ++ p) k = zd_state d k)
       \<and> (\<forall>k v. p k = Some v \<longrightarrow> (zd_state d ++ p) k = Some v)
       \<and> map_option zd_state
            (getDevice (updateDeviceState (updateDeviceState w a p now) a p now') a)
           = map_option zd_state (getDevice (updateDeviceState w a p now) a)
       \<and> (\<exists>d'. emitted (updateDeviceState w a p now) =
                  emitted w @ [STATE_CHANGE d' (zd_state d ++ p)]
              \<and> getDevice (updateDeviceState w a p now) a = Some d')"
proof -
  from assms have dev: "devices w a = Some d"
    by (simp add: getDevice_def)
  let ?d1 = "d\<lparr>zd_state := zd_state d ++ p, zd_lastSeen := Some now\<rparr>"
  let ?w1 = "updateDeviceState w a p now"
  have w1: "devices ?w1 a = Some ?d1"
    by (simp add: updateDeviceState_known [OF dev])
  have once: "map_option zd_state (getDevice ?w1 a) = Some (zd_state d ++ p)"
    by (simp add: getDevice_def w1)
  have keep: "\<forall>k. k \<notin> dom p \<longrightarrow> (zd_state d ++ p) k = zd_state d k"
    by (simp add: map_add_dom_app_simps)
  have over: "\<forall>k v. p k = Some v \<longrightarrow> (zd_state d ++ p) k = Some v"
    by (simp add: map_add_Some_iff)
  have twice: "map_option zd_state (getDevice (updateDeviceState ?w1 a p now') a)
                 = Some (zd_state d ++ p)"
    by (simp add: getDevice_def updateDeviceState_known [OF w1] overlay_twice)
  have ev: "emitted ?w1 = emitted w @ [STATE_CHANGE ?d1 (zd_state d ++ p)]"
    by (simp add: updateDeviceState_known [OF dev])
  from once keep over twice ev w1 show ?thesis
    by (simp add: getDevice_def)
qed

theorem updateDeviceState_merge_witness:
  "getDevice homeService ''0x01'' = Some lampEntry
   \<and> map_option zd_state
       (getDevice
          (updateDeviceState
             (updateDeviceState homeService ''0x01'' [''state'' \<mapsto> Str ''ON''] 1)
             ''0x01'' [''brightness'' \<mapsto> Num 80] 2)
          ''0x01'')
     = Some [''state'' \<mapsto> Str ''ON'', ''brightness'' \<mapsto> Num 80]"
proof -
  have d0: "getDevice homeService ''0x01'' = Some lampEntry"
    by (simp add: getDevice_def homeService_fields)
  let ?w1 = "updateDeviceState homeService ''0x01'' [''state'' \<mapsto> Str ''ON''] 1"
  have d1: "getDevice ?w1 ''0x01''
              = Some (lampEntry\<lparr>zd_state := [''state'' \<mapsto> Str ''ON''], zd_lastSeen := Some 1\<rparr>)"
    by (simp add: getDevice_def updateDeviceState_known [OF homeService_fields(3)] lampEntry_def)
  from updateDeviceState_merge [OF d1, of "[''brightness'' \<mapsto> Num 80]" 2 2] d0
  show ?thesis by simp
qed

text \<open>
  C9. For an identity that is not in the device map, \<open>updateDeviceState\<close> returns the
  service as it was: the same cache, no event added, and nothing raised (the function has no
  error result).
\<close>

theorem updateDeviceState_unknown:
  assumes "devices w a = None"
  shows "updateDeviceState w a p now = w"
  using assms by (simp add: updateDeviceState_def)

theorem updateDeviceState_unknown_witness:
  "devices homeService ''0xdead'' = None
   \<and> updateDeviceState homeService ''0xdead'' [''state'' \<mapsto> Str ''ON''] 7 = homeService"
proof -
  have n: "devices homeService ''0xdead'' = None"
    by (rule homeService_fields)
  from updateDeviceState_unknown [OF n] n show ?thesis by simp
qed

section \<open>Commands to a device\<close>

text \<open>
  One \<open>sendCommand\<close> makes at most one converter invocation, for the device, key, value
  and options it was given.
\<close>

lemma sendCommand_issued:
  "issued (snd (sendCommand env w a k v opts now)) = issued w
   \<or> (\<exists>e. issued (snd (sendCommand env w a k v opts now)) =
            issued w @ [\<lparr>tc_ieeeAddr = a, tc_endpoint = e, tc_key = k, tc_value = v,
                          tc_options = opts\<rparr>])"
  by (simp add: sendCommand_def Let_def split: option.splits convert_outcome.splits)

text \<open>
  When the device, its definition, an endpoint and a converter with a \<open>convertSet\<close> are
  found, the invocation is made, and the call fails only if the converter throws.
\<close>

lemma sendCommand_ready:
  assumes "getHerdsmanDevice w a = Some dev" and "env dev = Some defn"
    and "pickEndpoint dev = Some ep" and "findConverter defn k = Some conv"
    and "tz_convertSet conv = Some f"
  shows "issued (snd (sendCommand env w a k v opts now)) =
           issued w @ [\<lparr>tc_ieeeAddr = a, tc_endpoint = ep_ID ep, tc_key = k, tc_value = v,
                         tc_options = opts\<rparr>]"
    and "fst (sendCommand env w a k v opts now) =
           (if f (issued w) \<lparr>tc_ieeeAddr = a, tc_endpoint = ep_ID ep, tc_key = k, tc_value = v,
                         tc_options = opts\<rparr> = Throws then Inl ConverterFailed else Inr ())"
  using assms
  by (simp_all add: sendCommand_def Let_def split: option.splits convert_outcome.splits)









text \<open>
  C3. \<open>setColor\<close> forwards one representation at most, chosen by the order hex, then RGB,
  then hue with saturation. A hex string (a non-empty one: the code tests the string for
  truth) is sent whatever else the colour holds; an RGB triple is sent when there is no hex
  string; hue and saturation are sent when there is neither and both are given. In each case
  the whole call is that one \<open>sendCommand\<close> for the key \<open>color\<close>, so the only converter
  invocation it can add carries the chosen payload. With no representation (or no colour at
  all) the call returns normally and leaves the service, and with it the list of invocations,
  as it was.
\<close>

theorem setColor_precedence:
  "(\<forall>h. cs_hex c = Some h \<and> h \<noteq> [] \<longrightarrow>
        setColor env w a (Some c) t now =
          sendCommand env w a ''color'' (PHex h) (transitionOptions t) now
      \<and> (issued (snd (setColor env w a (Some c) t now)) = issued w
         \<or> (\<exists>e. issued (snd (setColor env w a (Some c) t now)) =
               issued w @ [\<lparr>tc_ieeeAddr = a, tc_endpoint = e, tc_key = ''color'',
                             tc_value = PHex h, tc_options = transitionOptions t\<rparr>])))
   \<and> (\<forall>r g b. (cs_hex c = None \<or> cs_hex c = Some []) \<and> cs_rgb c = Some (r, g, b) \<longrightarrow>
        setColor env w a (Some c) t now =
          sendCommand env w a ''color'' (PRgb r g b) (transitionOptions t) now
      \<and> (issued (snd (setColor env w a (Some c) t now)) = issued w
         \<or> (\<exists>e. issued (snd (setColor env w a (Some c) t now)) =
               issued w @ [\<lparr>tc_ieeeAddr = a, tc_endpoint = e, tc_key = ''color'',
                             tc_value = PRgb r g b, tc_options = transitionOptions t\<rparr>])))
   \<and> (\<forall>hu sa. (cs_hex c = None \<or> cs_hex c = Some []) \<and> cs_rgb c = None
              \<and> cs_hue c = Some hu \<and> cs_saturation c = Some sa \<longrightarrow>
        setColor env w a (Some c) t now =
          sendCommand env w a ''color'' (PHueSat hu sa) (transitionOptions t) now
      \<and> (issued (snd (setColor env w a (Some c) t now)) = issued w
         \<or> (\<exists>e. issued (snd (setColor env w a (Some c) t now)) =
               issued w @ [\<lparr>tc_ieeeAddr = a, tc_endpoint = e, tc_key = ''color'',
                             tc_value = PHueSat hu sa, tc_options = transitionOptions t\<rparr>])))
   \<and> ((cs_hex c = None \<or> cs_hex c = Some []) \<and> cs_rgb c = None
        \<and> (cs_hue c = None \<or> cs_saturation c = None) \<longrightarrow>
        setColor env w a (Some c) t now = (Inr (), w))
   \<and> setColor env w a None t now = (Inr (), w)"
proof (intro conjI allI impI)
  fix h
  assume "cs_hex c = Some h \<and> h \<noteq> []"
  then show "setColor env w a (Some c) t now =
      sendCommand env w a ''color'' (PHex h) (transitionOptions t) now"
    by (simp add: setColor_def Let_def)
  then show "issued (snd (setColor env w a (Some c) t now)) = issued w
         \<or> (\<exists>e. issued (snd (setColor env w a (Some c) t now)) =
               issued w @ [\<lparr>tc_ieeeAddr = a, tc_endpoint = e, tc_key = ''color'',
                             tc_value = PHex h, tc_options = transitionOptions t\<rparr>])"
    using sendCommand_issued [of env w a "''color''" "PHex h" "transitionOptions t" now]
    by simp
next
  fix r g b
  assume "(cs_hex c = None \<or> cs_hex c = Some []) \<and> cs_rgb c = Some (r, g, b)"
  then show "setColor env w a (Some c) t now =
      sendCommand env w a ''color'' (PRgb r g b) (transitionOptions t) now"
    by (auto simp add: setColor_def Let_def)
  then show "issued (snd (setColor env w a (Some c) t now)) = issued w
         \<or> (\<exists>e. issued (snd (setColor env w a (Some c) t now)) =
               issued w @ [\<lparr>tc_ieeeAddr = a, tc_endpoint = e, tc_key = ''color'',
                             tc_value = PRgb r g b, tc_options = transitionOptions t\<rparr>])"
    using sendCommand_issued [of env w a "''color''" "PRgb r g b" "transitionOptions t" now]
    by simp
next
  fix hu sa
  assume "(cs_hex c = None \<or> cs_hex c = Some []) \<and> cs_rgb c = None
              \<and> cs_hue c = Some hu \<and> cs_saturation c = Some sa"
  then show "setColor env w a (Some c) t now =
      sendCommand env w a ''color'' (PHueSat hu sa) (transitionOptions t) now"
    by (auto simp add: setColor_def Let_def)
  then show "issued (snd (setColor env w a (Some c) t now)) = issued w
         \<or> (\<exists>e. issued (snd (setColor env w a (Some c) t now)) =
               issued w @ [\<lparr>tc_ieeeAddr = a, tc_endpoint = e, tc_key = ''color'',
                             tc_value = PHueSat hu sa, tc_options = transitionOptions t\<rparr>])"
    using sendCommand_issued [of env w a "''color''" "PHueSat hu sa" "transitionOptions t" now]
    by simp
next
  assume "(cs_hex c = None \<or> cs_hex c = Some []) \<and> cs_rgb c = None
        \<and> (cs_hue c = None \<or> cs_saturation c = None)"
  then show "setColor env w a (Some c) t now = (Inr (), w)"
    by (auto simp add: setColor_def Let_def split: option.splits)
next
  show "setColor env w a None t now = (Inr (), w)"
    by (simp add: setColor_def)
qed

theorem setColor_precedence_witness:
  "issued (snd (setColor catalog homeService ''0x01''
       (Some \<lparr>cs_hex = Some ''#FF5500'', cs_rgb = Some (1, 2, 3), cs_hue = None,
              cs_saturation = None\<rparr>) None 0))
     = [\<lparr>tc_ieeeAddr = ''0x01'', tc_endpoint = 1, tc_key = ''color'',
         tc_value = PHex ''#FF5500'', tc_options = transitionOptions None\<rparr>]
   \<and> issued (snd (setColor catalog homeService ''0x01''
       (Some \<lparr>cs_hex = None, cs_rgb = Some (1, 2, 3), cs_hue = Some 20,
              cs_saturation = Some 100\<rparr>) None 0))
     = [\<lparr>tc_ieeeAddr = ''0x01'', tc_endpoint = 1, tc_key = ''color'',
         tc_value = PRgb 1 2 3, tc_options = transitionOptions None\<rparr>]
   \<and> issued (snd (setColor catalog homeService ''0x01''
       (Some \<lparr>cs_hex = None, cs_rgb = None, cs_hue = Some 20,
              cs_saturation = Some 100\<rparr>) None 0))
     = [\<lparr>tc_ieeeAddr = ''0x01'', tc_endpoint = 1, tc_key = ''color'',
         tc_value = PHueSat 20 100, tc_options = transitionOptions None\<rparr>]
   \<and> setColor catalog homeService ''0x01''
       (Some \<lparr>cs_hex = None, cs_rgb = None, cs_hue = Some 20, cs_saturation = None\<rparr>) None 0
     = (Inr (), homeService)"
proof -
  note ready = sendCommand_ready(1) [where env = catalog, OF home_lamp(1) home_lamp(2)
      home_lamp(3) lamp_converters(4) lightConverter_convertSet]
  let ?both = "\<lparr>cs_hex = Some ''#FF5500'', cs_rgb = Some (1, 2, 3), cs_hue = None,
              cs_saturation = None\<rparr>"
  let ?rgb = "\<lparr>cs_hex = None, cs_rgb = Some (1, 2, 3), cs_hue = Some 20,
              cs_saturation = Some (100::rat)\<rparr>"
  let ?hs = "\<lparr>cs_hex = None, cs_rgb = None :: (rat \<times> rat \<times> rat) option, cs_hue = Some 20,
              cs_saturation = Some (100::rat)\<rparr>"
  let ?none = "\<lparr>cs_hex = None, cs_rgb = None :: (rat \<times> rat \<times> rat) option, cs_hue = Some 20,
              cs_saturation = None :: rat option\<rparr>"
  have a: "issued (snd (setColor catalog homeService ''0x01'' (Some ?both) None 0))
     = [\<lparr>tc_ieeeAddr = ''0x01'', tc_endpoint = 1, tc_key = ''color'',
         tc_value = PHex ''#FF5500'', tc_options = transitionOptions None\<rparr>]"
    using setColor_precedence [of ?both catalog homeService "''0x01''" None 0]
    by (simp add: ready homeService_fields home_lamp)
  have b: "issued (snd (setColor catalog homeService ''0x01'' (Some ?rgb) None 0))
     = [\<lparr>tc_ieeeAddr = ''0x01'', tc_endpoint = 1, tc_key = ''color'',
         tc_value = PRgb 1 2 3, tc_options = transitionOptions None\<rparr>]"
    using setColor_precedence [of ?rgb catalog homeService "''0x01''" None 0]
    by (simp add: ready homeService_fields home_lamp)
  have c: "issued (snd (setColor catalog homeService ''0x01'' (Some ?hs) None 0))
     = [\<lparr>tc_ieeeAddr = ''0x01'', tc_endpoint = 1, tc_key = ''color'',
         tc_value = PHueSat 20 100, tc_options = transitionOptions None\<rparr>]"
    using setColor_precedence [of ?hs catalog homeService "''0x01''" None 0]
    by (simp add: ready homeService_fields home_lamp)
  have d: "setColor catalog homeService ''0x01'' (Some ?none) None 0 = (Inr (), homeService)"
    using setColor_precedence [of ?none catalog homeService "''0x01''" None 0]
    by simp
  from a b c d show ?thesis by simp
qed

section \<open>Compound commands\<close>

lemma keeps_refl [simp]: "keeps w w"
  by (simp add: keeps_def)









lemma issuesOnly_nil [simp]: "issuesOnly a ks w w"
  by (simp add: issuesOnly_def)







lemma plug_on:
  "sendCommand catalog homeService ''0x00158d0001234567'' ''state'' (PState ON) opts now =
     (Inr (),
      updateDeviceState
        (homeService\<lparr>issued :=
           [\<lparr>tc_ieeeAddr = ''0x00158d0001234567'', tc_endpoint = 1, tc_key = ''state'',
             tc_value = PState ON, tc_options = opts\<rparr>]\<rparr>)
        ''0x00158d0001234567'' [''state'' \<mapsto> Str ''ON''] now)"
  by (simp add: sendCommand_def home_plug plug_converters stateConverter_convertSet
      homeService_fields Let_def)


lemma getHerdsmanDevice_updateDeviceState [simp]:
  "getHerdsmanDevice (updateDeviceState w a st now) x = getHerdsmanDevice w x"
  by (simp add: getHerdsmanDevice_def updateDeviceState_def Let_def split: option.splits)

lemma getHerdsmanDevice_issued [simp]:
  "getHerdsmanDevice (w\<lparr>issued := cs\<rparr>) x = getHerdsmanDevice w x"
  by (simp add: getHerdsmanDevice_def)



section \<open>Reading the state of a device\<close>

text \<open>
  C7. On a device that the controller knows and that has an endpoint, \<open>readState\<close> never
  fails. Each of the three attributes of its result is decided by its own query alone: the
  key is absent when the query was rejected, and holds the value read when it resolved
  (\<open>ON\<close> or \<open>OFF\<close> for the On/Off attribute); the result has no other key. The service
  returned with the result is the one in which \<open>updateDeviceState\<close> has merged that
  result, so for a device of the directory the cached state is the prior state overlaid by
  the result.
\<close>

theorem readState_partial:
  assumes "getHerdsmanDevice w a = Some dev" and "pickEndpoint dev = Some ep"
  shows "\<exists>st. readState w a now = (Inr st, updateDeviceState w a st now)
     \<and> st ''state'' =
         (case ep_read ep ''genOnOff'' [''onOff''] of
            ReadRejects \<Rightarrow> None
          | ReadResolves r \<Rightarrow>
              Some (Str (if truthy (getProp r ''onOff'') then ''ON'' else ''OFF'')))
     \<and> st ''brightness'' =
         (case ep_read ep ''genLevelCtrl'' [''currentLevel''] of
            ReadRejects \<Rightarrow> None
          | ReadResolves r \<Rightarrow> Some (getProp r ''currentLevel''))
     \<and> st ''color_temp'' =
         (case ep_read ep ''lightingColorCtrl'' [''colorTemperature''] of
            ReadRejects \<Rightarrow> None
          | ReadResolves r \<Rightarrow> Some (getProp r ''colorTemperature''))
     \<and> (\<forall>k. k \<notin> {''state'', ''brightness'', ''color_temp''} \<longrightarrow> st k = None)
     \<and> (\<forall>d. getDevice w a = Some d \<longrightarrow>
           map_option zd_state (getDevice (updateDeviceState w a st now) a)
             = Some (zd_state d ++ st))"
proof -
  let ?s1 = "case ep_read ep ''genOnOff'' [''onOff''] of
               ReadRejects \<Rightarrow> Map.empty
             | ReadResolves r \<Rightarrow>
                 [''state'' \<mapsto>
                    Str (powerStateString (if truthy (getProp r ''onOff'') then ON else OFF))]"
  let ?s2 = "case ep_read ep ''genLevelCtrl'' [''currentLevel''] of
               ReadRejects \<Rightarrow> ?s1
             | ReadResolves r \<Rightarrow> ?s1(''brightness'' \<mapsto> getProp r ''currentLevel'')"
  let ?s3 = "case ep_read ep ''lightingColorCtrl'' [''colorTemperature''] of
               ReadRejects \<Rightarrow> ?s2
             | ReadResolves r \<Rightarrow> ?s2(''color_temp'' \<mapsto> getProp r ''colorTemperature'')"
  have run: "readState w a now = (Inr ?s3, updateDeviceState w a ?s3 now)"
    using assms by (simp add: readState_def Let_def)
  have st: "?s3 ''state'' =
         (case ep_read ep ''genOnOff'' [''onOff''] of
            ReadRejects \<Rightarrow> None
          | ReadResolves r \<Rightarrow>
              Some (Str (if truthy (getProp r ''onOff'') then ''ON'' else ''OFF'')))"
    by (simp split: read_outcome.splits)
  have br: "?s3 ''brightness'' =
         (case ep_read ep ''genLevelCtrl'' [''currentLevel''] of
            ReadRejects \<Rightarrow> None
          | ReadResolves r \<Rightarrow> Some (getProp r ''currentLevel''))"
    by (simp split: read_outcome.splits)
  have ct: "?s3 ''color_temp'' =
         (case ep_read ep ''lightingColorCtrl'' [''colorTemperature''] of
            ReadRejects \<Rightarrow> None
          | ReadResolves r \<Rightarrow> Some (getProp r ''colorTemperature''))"
    by (simp split: read_outcome.splits)
  have rest: "\<forall>k. k \<notin> {''state'', ''brightness'', ''color_temp''} \<longrightarrow> ?s3 k = None"
    by (simp split: read_outcome.splits)
  have cache: "\<forall>d. getDevice w a = Some d \<longrightarrow>
           map_option zd_state (getDevice (updateDeviceState w a ?s3 now) a)
             = Some (zd_state d ++ ?s3)"
    by (simp add: getDevice_def updateDeviceState_def Let_def)
  from run st br ct rest cache show ?thesis
    by blast
qed

theorem readState_partial_witness:
  "readState homeService ''0x00158d0001234567'' 9
     = (Inr [''state'' \<mapsto> Str ''ON''],
        updateDeviceState homeService ''0x00158d0001234567'' [''state'' \<mapsto> Str ''ON''] 9)
   \<and> map_option zd_state
       (getDevice (snd (readState homeService ''0x00158d0001234567'' 9)) ''0x00158d0001234567'')
     = Some [''state'' \<mapsto> Str ''ON'']"
proof -
  from readState_partial [OF home_plug(1) home_plug(3), of 9]
  obtain st where run: "readState homeService ''0x00158d0001234567'' 9
        = (Inr st, updateDeviceState homeService ''0x00158d0001234567'' st 9)"
    and on: "st ''state'' = Some (Str ''ON'')"
    and br: "st ''brightness'' = None"
    and ct: "st ''color_temp'' = None"
    and rest: "\<forall>k. k \<notin> {''state'', ''brightness'', ''color_temp''} \<longrightarrow> st k = None"
    and cache: "map_option zd_state
        (getDevice (updateDeviceState homeService ''0x00158d0001234567'' st 9)
           ''0x00158d0001234567'') = Some (zd_state plugEntry ++ st)"
    by (auto simp add: plugEndpoint_def getProp_def getDevice_def homeService_fields)
  have "st k = [''state'' \<mapsto> Str ''ON''] k" for k
    using on br ct rest by (cases "k \<in> {''state'', ''brightness'', ''color_temp''}") auto
  then have st: "st = [''state'' \<mapsto> Str ''ON'']"
    by (rule ext)
  from run cache show ?thesis
    by (simp add: st plugEntry_def)
qed

section \<open>Stopping\<close>




text \<open>
  C10. \<open>stop\<close> of the command-line coordinator never raises, in any state. When the
  coordinator is running, so that the controller's \<open>stop\<close> is called, then whether that
  call resolves or is rejected the coordinator is left not started, with no controller
  handle, and \<open>isRunning\<close> is false. \<open>isRunning\<close> is false after \<open>stop\<close> in every
  state in which a started coordinator has a controller, which \<open>start\<close> and the
  disconnect handler maintain.
\<close>

theorem ZigbeeCoordinator_stop_swallows:
  "fst (ZigbeeCoordinator_stop co) = Inr ()
   \<and> (co_started co \<and> co_controller co = Some ctrl \<longrightarrow>
        \<not> co_started (snd (ZigbeeCoordinator_stop co))
        \<and> co_controller (snd (ZigbeeCoordinator_stop co)) = None
        \<and> \<not> isRunning (snd (ZigbeeCoordinator_stop co)))
   \<and> ((co_started co \<longrightarrow> co_controller co \<noteq> None) \<longrightarrow>
        \<not> isRunning (snd (ZigbeeCoordinator_stop co)))"
  by (cases "ct_stop ctrl")
    (auto simp add: ZigbeeCoordinator_stop_def isRunning_def Let_def
      split: option.splits call_outcome.splits)

theorem ZigbeeCoordinator_stop_swallows_witness:
  "ct_stop (homeController\<lparr>ct_stop := Rejects\<rparr>) = Rejects
   \<and> ZigbeeCoordinator_stop
       \<lparr>co_controller = Some (homeController\<lparr>ct_stop := Rejects\<rparr>), co_started = True\<rparr>
     = (Inr (), \<lparr>co_controller = None, co_started = False\<rparr>)"
proof -
  let ?co = "\<lparr>co_controller = Some (homeController\<lparr>ct_stop := Rejects\<rparr>), co_started = True\<rparr>"
  from ZigbeeCoordinator_stop_swallows [of ?co "homeController\<lparr>ct_stop := Rejects\<rparr>"]
  have "fst (ZigbeeCoordinator_stop ?co) = Inr ()"
    and "\<not> co_started (snd (ZigbeeCoordinator_stop ?co))"
    and "co_controller (snd (ZigbeeCoordinator_stop ?co)) = None"
    by simp_all
  then show ?thesis
    by (cases "ZigbeeCoordinator_stop ?co") (auto simp add: ZigbeeCoordinator.equality)
qed

section \<open>Dispatch and the interview flag\<close>

text \<open>
  C4, as the claim states it, fails: no function looks at the interview flag before it
  dispatches, and there is no error for it. The plug's interview has not completed; the
  command-line \<open>sendOnOff\<close> hands the command to the controller and succeeds, and so does
  \<open>sendCommand\<close> of the service, which invokes the converter.
\<close>

theorem sendOnOff_pending_interview_counterexample:
  "\<not> hd_interviewCompleted plug
   \<and> sendOnOff homeCoordinator ''0x00158d0001234567'' Action_on []
       = (Inr (), [\<lparr>zc_ieeeAddr = ''0x00158d0001234567'', zc_endpoint = 1,
                    zc_cluster = ''genOnOff'', zc_command = ''on''\<rparr>])
   \<and> \<not> zd_interviewCompleted plugEntry
   \<and> getDevice homeService ''0x00158d0001234567'' = Some plugEntry
   \<and> fst (sendCommand catalog homeService ''0x00158d0001234567'' ''state'' (PState ON)
            emptyOptions 0) = Inr ()
   \<and> issued (snd (sendCommand catalog homeService ''0x00158d0001234567'' ''state'' (PState ON)
            emptyOptions 0))
       = [\<lparr>tc_ieeeAddr = ''0x00158d0001234567'', tc_endpoint = 1, tc_key = ''state'',
           tc_value = PState ON, tc_options = emptyOptions\<rparr>]"
proof -
  have cli: "sendOnOff homeCoordinator ''0x00158d0001234567'' Action_on []
       = (Inr (), [\<lparr>zc_ieeeAddr = ''0x00158d0001234567'', zc_endpoint = 1,
                    zc_cluster = ''genOnOff'', zc_command = ''on''\<rparr>])"
    by (simp add: sendOnOff_def getOnOffEndpoint_def DeviceRegistry_getHerdsmanDevice_def
        getController_def assertRunning_def homeCoordinator_def homeController_def
        getDeviceByIeeeAddr_def lamp_def plug_def plugEndpoint_def lampEndpoint_def
        CLUSTER_ON_OFF_def Let_def)
  have flags: "\<not> hd_interviewCompleted plug" "\<not> zd_interviewCompleted plugEntry"
    by (simp_all add: plug_def plugEntry_def)
  have dir: "getDevice homeService ''0x00158d0001234567'' = Some plugEntry"
    by (simp add: getDevice_def homeService_fields)
  from cli flags dir show ?thesis
    by (simp add: plug_on)
qed

lemma find_interview:
  assumes "\<And>d. P (d\<lparr>hd_interviewCompleted := f d\<rparr>) = P d"
  shows "find P (map (\<lambda>d. d\<lparr>hd_interviewCompleted := f d\<rparr>) ds)
           = map_option (\<lambda>d. d\<lparr>hd_interviewCompleted := f d\<rparr>) (find P ds)"
  using assms by (induction ds) simp_all

text \<open>
  C4, amended. \<open>sendOnOff\<close> does not depend on the interview flag: with the flags of the
  controller's devices set in any way its result and the commands handed over are the same.
  What it checks before any command is handed to the controller is that the coordinator is
  running, that the device is known and that one of its endpoints has the On/Off cluster:
  when it fails with \<open>CoordinatorError\<close>, \<open>DeviceNotFoundError\<close> or
  \<open>UnsupportedActionError\<close>, the list of commands is as it was.
\<close>

theorem sendOnOff_ignores_interview:
  "sendOnOff
     (co\<lparr>co_controller :=
          map_option
            (\<lambda>ctrl. ctrl\<lparr>ct_devices :=
               map (\<lambda>d. d\<lparr>hd_interviewCompleted := f d\<rparr>) (ct_devices ctrl)\<rparr>)
            (co_controller co)\<rparr>)
     a action sent
   = sendOnOff co a action sent
   \<and> (fst (sendOnOff co a action sent)
        \<in> {Inl CoordinatorError, Inl (DeviceNotFoundError a),
            Inl (UnsupportedActionError (actionString action) a)}
      \<longrightarrow> snd (sendOnOff co a action sent) = sent)"
proof
  let ?g = "\<lambda>d. d\<lparr>hd_interviewCompleted := f d\<rparr>"
  let ?co = "co\<lparr>co_controller :=
          map_option (\<lambda>ctrl. ctrl\<lparr>ct_devices := map ?g (ct_devices ctrl)\<rparr>) (co_controller co)\<rparr>"
  have dev: "getDeviceByIeeeAddr (ctrl\<lparr>ct_devices := map ?g (ct_devices ctrl)\<rparr>) a
               = map_option ?g (getDeviceByIeeeAddr ctrl a)" for ctrl
    by (simp add: getDeviceByIeeeAddr_def find_interview)
  have "DeviceRegistry_getHerdsmanDevice ?co a
          = map_sum id ?g (DeviceRegistry_getHerdsmanDevice co a)"
    by (cases "co_controller co")
      (auto simp add: DeviceRegistry_getHerdsmanDevice_def getController_def assertRunning_def
        dev split: option.splits)
  then have "getOnOffEndpoint ?co a = getOnOffEndpoint co a"
    by (cases "DeviceRegistry_getHerdsmanDevice co a")
      (simp_all add: getOnOffEndpoint_def cong: option.case_cong)
  then show "sendOnOff ?co a action sent = sendOnOff co a action sent"
    by (simp add: sendOnOff_def)
next
  show "fst (sendOnOff co a action sent)
        \<in> {Inl CoordinatorError, Inl (DeviceNotFoundError a),
            Inl (UnsupportedActionError (actionString action) a)}
      \<longrightarrow> snd (sendOnOff co a action sent) = sent"
    by (auto simp add: sendOnOff_def Let_def split: sum.splits option.splits call_outcome.splits)
qed

theorem sendOnOff_ignores_interview_witness:
  "sendOnOff
     (homeCoordinator\<lparr>co_controller :=
          map_option
            (\<lambda>ctrl. ctrl\<lparr>ct_devices :=
               map (\<lambda>d. d\<lparr>hd_interviewCompleted := True\<rparr>) (ct_devices ctrl)\<rparr>)
            (co_controller homeCoordinator)\<rparr>)
     ''0x00158d0001234567'' Action_on []
   = (Inr (), [\<lparr>zc_ieeeAddr = ''0x00158d0001234567'', zc_endpoint = 1,
                zc_cluster = ''genOnOff'', zc_command = ''on''\<rparr>])
   \<and> sendOnOff homeCoordinator ''0xdead'' Action_on [] = (Inl (DeviceNotFoundError ''0xdead''), [])"
proof -
  have cli: "sendOnOff homeCoordinator ''0x00158d0001234567'' Action_on []
       = (Inr (), [\<lparr>zc_ieeeAddr = ''0x00158d0001234567'', zc_endpoint = 1,
                    zc_cluster = ''genOnOff'', zc_command = ''on''\<rparr>])"
    by (simp add: sendOnOff_def getOnOffEndpoint_def DeviceRegistry_getHerdsmanDevice_def
        getController_def assertRunning_def homeCoordinator_def homeController_def
        getDeviceByIeeeAddr_def lamp_def plug_def plugEndpoint_def lampEndpoint_def
        CLUSTER_ON_OFF_def Let_def)
  have err: "fst (sendOnOff homeCoordinator ''0xdead'' Action_on [])
       = Inl (DeviceNotFoundError ''0xdead'')"
    by (simp add: sendOnOff_def getOnOffEndpoint_def DeviceRegistry_getHerdsmanDevice_def
        getController_def assertRunning_def homeCoordinator_def homeController_def
        getDeviceByIeeeAddr_def lamp_def plug_def)
  from sendOnOff_ignores_interview [where co = homeCoordinator and f = "\<lambda>d. True"
      and a = "''0x00158d0001234567''" and action = Action_on and sent = "[]"]
  have a: "sendOnOff
     (homeCoordinator\<lparr>co_controller :=
          map_option
            (\<lambda>ctrl. ctrl\<lparr>ct_devices :=
               map (\<lambda>d. d\<lparr>hd_interviewCompleted := True\<rparr>) (ct_devices ctrl)\<rparr>)
            (co_controller homeCoordinator)\<rparr>)
     ''0x00158d0001234567'' Action_on []
   = (Inr (), [\<lparr>zc_ieeeAddr = ''0x00158d0001234567'', zc_endpoint = 1,
                zc_cluster = ''genOnOff'', zc_command = ''on''\<rparr>])"
    by (simp add: cli)
  from sendOnOff_ignores_interview [where co = homeCoordinator and f = "\<lambda>d. True"
      and a = "''0xdead''" and action = Action_on and sent = "[]"]
  have "snd (sendOnOff homeCoordinator ''0xdead'' Action_on []) = []"
    by (simp add: err)
  with err have b: "sendOnOff homeCoordinator ''0xdead'' Action_on []
      = (Inl (DeviceNotFoundError ''0xdead''), [])"
    by (cases "sendOnOff homeCoordinator ''0xdead'' Action_on []") simp
  from a b show ?thesis by simp
qed

end
